theory Spec2Isabelle
  imports Main
begin

section \<open>The webOS dynaload module (node_webos.cpp)\<close>

text \<open>
  The module exports two native functions to JavaScript: \<open>include\<close>
  (IncludeScriptWrapper, IncludeScript) and \<open>require\<close> (RequireWrapper, Require).
  Both drive the V8 engine and boost::filesystem. Those two libraries are not part of
  the module; they appear here as the fields of an environment record, and the state they
  act on (object properties, the entered context, the scheduled exception) is an explicit
  \<open>world\<close> that every function takes and returns.
\<close>

subsection \<open>Values and state\<close>

type_synonym addr = nat

text \<open>
  A JavaScript value as the module sees it through a handle. Objects and functions are
  references into the heap; an array carries the elements it holds when it is handed
  over; \<open>Err msg\<close> is the object built by \<open>Exception::Error(String::New(msg))\<close>.
\<close>

datatype val =
    Undefined
  | Null
  | Boolean bool
  | Number int
  | Str string
  | Obj addr
  | Fun addr
  | Arr "val list"
  | Err string

text \<open>The calls that leave the module for the file system and the engine's parser and
  evaluator. The world keeps them in the order they are made; the module itself never
  reads this record.\<close>

datatype event = EvRead string | EvCompile string | EvRun string

text \<open>A C++ exception in flight: \<open>std::exception\<close> with its \<open>what()\<close>, or anything else.\<close>

datatype cpp_exception = StdException string | UnknownException

text \<open>
  \<open>heap w a\<close> is the property table of the object at \<open>a\<close>; a context is identified
  with the address of its global object, and \<open>current w\<close> is
  \<open>Context::GetCurrent()->Global()\<close>; \<open>pending w\<close> is the exception scheduled in the
  engine, which the JavaScript caller sees thrown once the native function returns.
\<close>

record world =
  heap :: "addr \<Rightarrow> string \<rightharpoonup> val"
  next_addr :: addr
  current :: addr
  token :: "addr \<Rightarrow> val"
  pending :: "val option"
  trace :: "event list"

text \<open>A compiled script: its source text and the name it was compiled under.\<close>

datatype script = Script string string

text \<open>
  What the module calls but does not define: path resolution of boost::filesystem, the
  file system with the message of the exception a failed read carries, the engine's
  parser with the exception it schedules for a source it rejects (if any), the engine's
  evaluation of a compiled script (any function of the world: a script may change every
  object, schedule an exception, load further files), and the engine's conversion of a
  non-string value to a string (\<open>None\<close> when the conversion itself fails).
\<close>

record env =
  system_complete :: "string \<Rightarrow> string"
  parent_path :: "string \<Rightarrow> string"
  fs :: "string \<rightharpoonup> string"
  what :: "string \<Rightarrow> string"
  syntax_ok :: "string \<Rightarrow> bool"
  syntax_error :: "string \<Rightarrow> val option"
  run :: "script \<Rightarrow> world \<Rightarrow> val option \<times> world"
  ToString :: "val \<Rightarrow> string option"

text \<open>The result of a native function: a handle (\<open>None\<close> is the empty handle) or a
  C++ exception that left it.\<close>

datatype outcome = Returned "val option" | Thrown cpp_exception

subsection \<open>The engine interface\<close>

text \<open>\<open>obj->Set(name, v)\<close> binds the name; \<open>obj->Get(name)\<close> gives \<open>Undefined\<close> for
  a name that is not bound. \<open>ThrowException(e)\<close> schedules \<open>e\<close> and returns the
  undefined value.\<close>

definition Object_Set :: "addr \<Rightarrow> string \<Rightarrow> val \<Rightarrow> world \<Rightarrow> world" where
  "Object_Set obj name v w = w\<lparr>heap := (heap w)(obj := (heap w obj)(name \<mapsto> v))\<rparr>"

definition Object_Get :: "addr \<Rightarrow> string \<Rightarrow> world \<Rightarrow> val" where
  "Object_Get obj name w = (case heap w obj name of None \<Rightarrow> Undefined | Some v \<Rightarrow> v)"

definition ThrowException :: "val \<Rightarrow> world \<Rightarrow> val \<times> world" where
  "ThrowException e w = (Undefined, w\<lparr>pending := Some e\<rparr>)"

definition Exception_Error :: "string \<Rightarrow> val" where
  "Exception_Error msg = Err msg"

text \<open>A new context and a new instance of an empty template are objects at the next
  free address, without properties. The bindings that the engine itself gives every
  global object (its built-in constructors) are not part of the model.\<close>

definition Context_New :: "world \<Rightarrow> addr \<times> world" where
  "Context_New w =
     (next_addr w,
      w\<lparr>heap := (heap w)(next_addr w := Map.empty), next_addr := Suc (next_addr w)\<rparr>)"

definition NewInstance :: "world \<Rightarrow> addr \<times> world" where
  "NewInstance w =
     (next_addr w,
      w\<lparr>heap := (heap w)(next_addr w := Map.empty), next_addr := Suc (next_addr w)\<rparr>)"

definition GetSecurityToken :: "addr \<Rightarrow> world \<Rightarrow> val" where
  "GetSecurityToken ctx w = token w ctx"

definition SetSecurityToken :: "addr \<Rightarrow> val \<Rightarrow> world \<Rightarrow> world" where
  "SetSecurityToken ctx t w = w\<lparr>token := (token w)(ctx := t)\<rparr>"

fun IsString :: "val \<Rightarrow> bool" where
  "IsString (Str s) = True"
| "IsString v = False"

fun IsFunction :: "val \<Rightarrow> bool" where
  "IsFunction (Fun a) = True"
| "IsFunction v = False"

fun IsArray :: "val \<Rightarrow> bool" where
  "IsArray (Arr xs) = True"
| "IsArray v = False"

text \<open>\<open>*v8::String::Utf8Value(v)\<close>: the characters of a string, the engine's conversion
  of anything else; \<open>None\<close> is the null pointer of a failed conversion. The result is
  used as a C string, so a path is taken to hold no NUL character.\<close>

fun Utf8Value :: "env \<Rightarrow> val \<Rightarrow> string option" where
  "Utf8Value E (Str s) = Some s"
| "Utf8Value E v = ToString E v"

text \<open>The parser runs no script: besides its result, the empty handle for a source it
  rejects, its only effect is the exception it may schedule for such a source.\<close>

definition Script_Compile :: "env \<Rightarrow> string \<Rightarrow> string \<Rightarrow> world \<Rightarrow> script option \<times> world" where
  "Script_Compile E source name w =
     (let w1 = w\<lparr>trace := trace w @ [EvCompile name]\<rparr>
      in if syntax_ok E source then (Some (Script source name), w1)
         else (None, case syntax_error E source of
                       None \<Rightarrow> w1
                     | Some e \<Rightarrow> w1\<lparr>pending := Some e\<rparr>))"

definition script_name :: "script \<Rightarrow> string" where
  "script_name s = (case s of Script source name \<Rightarrow> name)"

definition Script_Run :: "env \<Rightarrow> script \<Rightarrow> world \<Rightarrow> val option \<times> world" where
  "Script_Run E s w = run E s (w\<lparr>trace := trace w @ [EvRun (script_name s)]\<rparr>)"

text \<open>
  Modelled from the spec: createV8StringFromFile is declared in external_string.h, which
  is not among the sources. The specification says that the loader reads the full
  contents of the file and that a read failure (missing file, permission denied)
  surfaces as a raised error; IncludeScriptWrapper catches \<open>std::exception\<close> around the
  call, so the raised error is a C++ exception.
\<close>

definition createV8StringFromFile :: "env \<Rightarrow> string \<Rightarrow> world \<Rightarrow> (cpp_exception + string) \<times> world" where
  "createV8StringFromFile E path w =
     (case fs E path of
        None \<Rightarrow> Inl (StdException (what E path))
      | Some source \<Rightarrow> Inr source,
      w\<lparr>trace := trace w @ [EvRead path]\<rparr>)"

subsection \<open>The identity globals\<close>

definition kFileNameGlobal :: string where
  "kFileNameGlobal = ''__filename''"

definition kDirNameGlobal :: string where
  "kDirNameGlobal = ''__dirname''"

definition SetFileAndDirectoryGlobals :: "env \<Rightarrow> addr \<Rightarrow> string \<Rightarrow> world \<Rightarrow> world" where
  "SetFileAndDirectoryGlobals E global path w =
     (let pathToFile = system_complete E path;
          pathToParentDir = parent_path E pathToFile;
          w1 = Object_Set global kFileNameGlobal (Str pathToFile) w
      in Object_Set global kDirNameGlobal (Str pathToParentDir) w1)"

definition ClearFileAndDirectoryGlobals :: "addr \<Rightarrow> world \<Rightarrow> world" where
  "ClearFileAndDirectoryGlobals global w =
     Object_Set global kDirNameGlobal Undefined (Object_Set global kFileNameGlobal Undefined w)"

subsection \<open>include\<close>

text \<open>
  IncludeScript returns a handle and writes \<open>exceptionOccurred\<close> through a reference;
  the model returns the outcome, the final value of the flag and the world. The flag is
  set before anything else, so it is \<open>True\<close> also when a C++ exception leaves the function.
\<close>

definition IncludeScript :: "env \<Rightarrow> string option \<Rightarrow> world \<Rightarrow> outcome \<times> bool \<times> world" where
  "IncludeScript E pathToScriptSource w =
     (case pathToScriptSource of
        None \<Rightarrow>
          (case ThrowException
                  (Exception_Error ''webOS 'include' requires a non-empty filename argument.'') w of
             (v, w') \<Rightarrow> (Returned (Some v), True, w'))
      | Some path \<Rightarrow>
          if path = [] then
            (case ThrowException
                    (Exception_Error ''webOS 'include' requires a non-empty filename argument.'') w of
               (v, w') \<Rightarrow> (Returned (Some v), True, w'))
          else
            (case createV8StringFromFile E path w of
               (Inl ex, w1) \<Rightarrow> (Thrown ex, True, w1)
             | (Inr scriptSource, w1) \<Rightarrow>
                 (case Script_Compile E scriptSource path w1 of
                    (None, w2) \<Rightarrow> (Returned (Some Undefined), True, w2)
                  | (Some compiledScript, w2) \<Rightarrow>
                      (let global = current w2;
                           w3 = SetFileAndDirectoryGlobals E global path w2
                       in case Script_Run E compiledScript w3 of
                            (returnValue, w4) \<Rightarrow>
                              (let w5 = ClearFileAndDirectoryGlobals global w4
                               in case returnValue of
                                    None \<Rightarrow> (Returned None, True, w5)
                                  | Some v \<Rightarrow> (Returned (Some v), False, w5))))))"

text \<open>The wrapper catches every C++ exception, so it always returns a handle.\<close>

definition IncludeScriptWrapper :: "env \<Rightarrow> val list \<Rightarrow> world \<Rightarrow> val option \<times> world" where
  "IncludeScriptWrapper E arguments w =
     (case arguments of
        [a] \<Rightarrow>
          (case IncludeScript E (Utf8Value E a) w of
             (Returned r, exceptionOccurred, w') \<Rightarrow> (r, w')
           | (Thrown (StdException msg), exceptionOccurred, w') \<Rightarrow>
               (case ThrowException (Exception_Error msg) w' of (v, w'') \<Rightarrow> (Some v, w''))
           | (Thrown UnknownException, exceptionOccurred, w') \<Rightarrow>
               (case ThrowException
                       (Exception_Error ''Native function threw an unknown exception.'') w' of
                  (v, w'') \<Rightarrow> (Some v, w'')))
      | _ \<Rightarrow>
          (case ThrowException (Exception_Error ''Invalid number of parameters, 1 expected.'') w of
             (v, w') \<Rightarrow> (Some v, w')))"

subsection \<open>require\<close>

definition CopyProperty :: "addr \<Rightarrow> addr \<Rightarrow> string \<Rightarrow> world \<Rightarrow> world" where
  "CopyProperty src dst propertyName w = Object_Set dst propertyName (Object_Get src propertyName w) w"

text \<open>
  Require up to its loop: the new context is created and entered, and its global object
  is seeded. The result is the new global object and the world.
\<close>

definition Require_seed :: "val \<Rightarrow> val \<Rightarrow> world \<Rightarrow> addr \<times> world" where
  "Require_seed nativeRequire loader w =
     (let currentGlobal = current w in
      case Context_New w of
        (utilityContext, w1) \<Rightarrow>
          (let w2 = SetSecurityToken utilityContext (GetSecurityToken currentGlobal w1) w1;
               w3 = w2\<lparr>current := utilityContext\<rparr>
           in case NewInstance w3 of
                (exportsInstance, w4) \<Rightarrow>
                  (let global = utilityContext;
                       w5 = Object_Set global ''exports'' (Obj exportsInstance) w4;
                       w6 = Object_Set global ''global'' (Obj global) w5;
                       w7 = Object_Set global ''globals'' (Obj currentGlobal) w6;
                       w8 = Object_Set global ''root'' (Obj currentGlobal) w7;
                       w9 = Object_Set global ''MojoLoader'' loader w8;
                       w10 = Object_Set global ''require'' nativeRequire w9;
                       w11 = CopyProperty currentGlobal global ''console'' w10;
                       w12 = CopyProperty currentGlobal global ''setTimeout'' w11;
                       w13 = CopyProperty currentGlobal global ''clearTimeout'' w12;
                       w14 = CopyProperty currentGlobal global ''setInterval'' w13;
                       w15 = CopyProperty currentGlobal global ''clearInterval'' w14
                   in (global, w15))))"

text \<open>How the loop over the file list ends: it ran over the whole list, it met
  \<open>break\<close>, it returned the handle of ThrowException on an element that is not a
  string, or a C++ exception of IncludeScript passed through it. An element that is a
  string is \<open>Str fileName\<close>, and \<open>fileName\<close> is what Utf8Value gives for it. The
  length of a JavaScript array fits the 32-bit counter of the loop, so the loop visits
  the elements in order, each once.\<close>

datatype loop_exit = Completed | Broke | Rejected val | Threw cpp_exception

fun Require_loop :: "env \<Rightarrow> addr \<Rightarrow> val list \<Rightarrow> world \<Rightarrow> loop_exit \<times> world" where
  "Require_loop E global [] w = (Completed, w)"
| "Require_loop E global (Str fileName # rest) w =
     (let w1 = SetFileAndDirectoryGlobals E global fileName w
      in case IncludeScript E (Some fileName) w1 of
           (Thrown ex, exceptionOccurred, w2) \<Rightarrow> (Threw ex, w2)
         | (Returned r, exceptionOccurred, w2) \<Rightarrow>
             if exceptionOccurred then (Broke, w2) else Require_loop E global rest w2)"
| "Require_loop E global (fileNameObject # rest) w =
     (case ThrowException
             (Exception_Error ''All elements of file paths array must be strings.'') w of
        (v, w') \<Rightarrow> (Rejected v, w'))"

text \<open>
  Require: the destructor of \<open>Context::Scope\<close> leaves the new context on every exit,
  so the caller's context is current again in every result.
\<close>

definition Require :: "env \<Rightarrow> val \<Rightarrow> val \<Rightarrow> val list \<Rightarrow> world \<Rightarrow> outcome \<times> world" where
  "Require E nativeRequire loader filePaths w =
     (case Require_seed nativeRequire loader w of
        (global, w15) \<Rightarrow>
          (case Require_loop E global filePaths w15 of
             (Rejected v, wl) \<Rightarrow> (Returned (Some v), wl\<lparr>current := current w\<rparr>)
           | (Threw ex, wl) \<Rightarrow> (Thrown ex, wl\<lparr>current := current w\<rparr>)
           | (Completed, wl) \<Rightarrow>
               (Returned (Some (Obj global)),
                (ClearFileAndDirectoryGlobals global wl)\<lparr>current := current w\<rparr>)
           | (Broke, wl) \<Rightarrow>
               (Returned (Some (Obj global)),
                (ClearFileAndDirectoryGlobals global wl)\<lparr>current := current w\<rparr>)))"

definition RequireWrapper :: "env \<Rightarrow> val list \<Rightarrow> world \<Rightarrow> outcome \<times> world" where
  "RequireWrapper E arguments w =
     (case arguments of
        [a0, a1, a2] \<Rightarrow>
          if \<not> IsFunction a0 then
            (case ThrowException (Exception_Error ''Argument 2 must be an function.'') w of
               (v, w') \<Rightarrow> (Returned (Some v), w'))
          else
            (case a2 of
               Arr fileList \<Rightarrow> Require E a0 a1 fileList w
             | _ \<Rightarrow>
                 (case ThrowException (Exception_Error ''Argument 3 must be an array.'') w of
                    (v, w') \<Rightarrow> (Returned (Some v), w')))
      | _ \<Rightarrow>
          (case ThrowException (Exception_Error ''Invalid number of parameters, 3 expected.'') w of
             (v, w') \<Rightarrow> (Returned (Some v), w')))"

subsection \<open>A concrete system\<close>

text \<open>
  A small instance on which the statements below are exercised. The host global object is
  at address 0 and holds the five bindings that Require copies and one that it does not;
  every file lives in \<open>/app\<close>. The file a.js assigns a property of the object bound
  to \<open>exports\<close> (and throws if there is none), b.js throws the number 7, c.js assigns a
  global, bad.js does not parse, and no other file exists.
\<close>

definition demo_run :: "script \<Rightarrow> world \<Rightarrow> val option \<times> world" where
  "demo_run s w =
     (case s of Script source name \<Rightarrow>
        if source = ''exports.x = 1'' then
          (case heap w (current w) ''exports'' of
             Some (Obj a) \<Rightarrow> (Some (Number 1), Object_Set a ''x'' (Number 1) w)
           | _ \<Rightarrow> (None, w\<lparr>pending := Some (Err ''exports is not defined'')\<rparr>))
        else if source = ''throw 7'' then (None, w\<lparr>pending := Some (Number 7)\<rparr>)
        else if source = ''y = 2'' then
          (Some (Number 2), Object_Set (current w) ''y'' (Number 2) w)
        else (Some Undefined, w))"

definition demo_env :: env where
  "demo_env =
     \<lparr>system_complete = (\<lambda>p. ''/app/'' @ p),
      parent_path = (\<lambda>p. ''/app''),
      fs = [''a.js'' \<mapsto> ''exports.x = 1'', ''b.js'' \<mapsto> ''throw 7'', ''bad.js'' \<mapsto> ''(('',
            ''c.js'' \<mapsto> ''y = 2''],
      what = (\<lambda>p. ''cannot open '' @ p),
      syntax_ok = (\<lambda>s. s \<noteq> ''((''),
      syntax_error = (\<lambda>s. Some (Err ''SyntaxError'')),
      run = demo_run,
      ToString = (\<lambda>v. case v of Number n \<Rightarrow> (if n = 42 then Some ''42'' else None)
                              | Undefined \<Rightarrow> Some ''undefined''
                              | _ \<Rightarrow> None)\<rparr>"

definition demo_world :: world where
  "demo_world =
     \<lparr>heap = (\<lambda>a. Map.empty)
               (0 := [''console'' \<mapsto> Obj 1, ''setTimeout'' \<mapsto> Fun 2, ''clearTimeout'' \<mapsto> Fun 3,
                      ''setInterval'' \<mapsto> Fun 4, ''clearInterval'' \<mapsto> Fun 5, ''process'' \<mapsto> Obj 6]),
      next_addr = 9, current = 0, token = (\<lambda>a. Obj a), pending = None, trace = []\<rparr>"

text \<open>The world after seeding, the world after the loop has loaded a.js, and the world
  after it has then loaded b.js.\<close>

definition demo_seeded :: world where
  "demo_seeded = snd (Require_seed (Fun 7) (Obj 8) demo_world)"

definition demo_after_a :: world where
  "demo_after_a = snd (Require_loop demo_env 9 [Str ''a.js''] demo_seeded)"

definition demo_after_b :: world where
  "demo_after_b =
     snd (snd (IncludeScript demo_env (Some ''b.js'')
                 (SetFileAndDirectoryGlobals demo_env 9 ''b.js'' demo_after_a)))"

text \<open>
  A second engine, for a file that loads another one. It is the engine above with one more
  file, outer.js, whose script calls \<open>include\<close> on c.js and then completes with the
  array of the two identity globals as it reads them on the global object of its context.
  The call made by the script is the call of the exported function, IncludeScriptWrapper;
  on c.js the two engines do the same (lemma \<open>nested_include_c\<close> below).
\<close>

definition nested_run :: "script \<Rightarrow> world \<Rightarrow> val option \<times> world" where
  "nested_run s w =
     (case s of Script source name \<Rightarrow>
        if source = ''include(c.js); [__filename, __dirname]'' then
          (case IncludeScriptWrapper demo_env [Str ''c.js''] w of
             (r, w1) \<Rightarrow>
               (Some (Arr [Object_Get (current w1) kFileNameGlobal w1,
                           Object_Get (current w1) kDirNameGlobal w1]), w1))
        else demo_run s w)"

definition nested_env :: env where
  "nested_env =
     demo_env\<lparr>fs := (fs demo_env)(''outer.js'' \<mapsto> ''include(c.js); [__filename, __dirname]''),
               run := nested_run\<rparr>"


section \<open>Basic facts\<close>

text \<open>What each operation does to each field of the world, stated per object so that a
  chain of property writes simplifies in one pass.\<close>

lemma Object_Set_fields [simp]:
  "heap (Object_Set obj name v w) obj = (heap w obj)(name \<mapsto> v)"
  "next_addr (Object_Set obj name v w) = next_addr w"
  "current (Object_Set obj name v w) = current w"
  "token (Object_Set obj name v w) = token w"
  "pending (Object_Set obj name v w) = pending w"
  "trace (Object_Set obj name v w) = trace w"
  by (simp_all add: Object_Set_def)

lemma Object_Set_other [simp]:
  "a \<noteq> obj \<Longrightarrow> heap (Object_Set obj name v w) a = heap w a"
  by (simp add: Object_Set_def)

lemma Object_Get_Object_Set_other [simp]:
  "src \<noteq> obj \<Longrightarrow> Object_Get src n (Object_Set obj name v w) = Object_Get src n w"
  by (simp add: Object_Get_def)

lemma CopyProperty_fields [simp]:
  "heap (CopyProperty src dst n w) dst = (heap w dst)(n \<mapsto> Object_Get src n w)"
  "next_addr (CopyProperty src dst n w) = next_addr w"
  "current (CopyProperty src dst n w) = current w"
  "token (CopyProperty src dst n w) = token w"
  "pending (CopyProperty src dst n w) = pending w"
  "trace (CopyProperty src dst n w) = trace w"
  by (simp_all add: CopyProperty_def)

lemma CopyProperty_other [simp]:
  "a \<noteq> dst \<Longrightarrow> heap (CopyProperty src dst n w) a = heap w a"
  by (simp add: CopyProperty_def)

lemma Object_Get_CopyProperty_other [simp]:
  "a \<noteq> dst \<Longrightarrow> Object_Get a m (CopyProperty src dst n w) = Object_Get a m w"
  by (simp add: Object_Get_def)

lemma identity_names_distinct [simp]:
  "kFileNameGlobal \<noteq> kDirNameGlobal" "kDirNameGlobal \<noteq> kFileNameGlobal"
  by (simp_all add: kFileNameGlobal_def kDirNameGlobal_def)

lemma SetFileAndDirectoryGlobals_fields [simp]:
  "heap (SetFileAndDirectoryGlobals E g p w) g =
     (heap w g)(kFileNameGlobal \<mapsto> Str (system_complete E p),
                kDirNameGlobal \<mapsto> Str (parent_path E (system_complete E p)))"
  "next_addr (SetFileAndDirectoryGlobals E g p w) = next_addr w"
  "current (SetFileAndDirectoryGlobals E g p w) = current w"
  "token (SetFileAndDirectoryGlobals E g p w) = token w"
  "pending (SetFileAndDirectoryGlobals E g p w) = pending w"
  "trace (SetFileAndDirectoryGlobals E g p w) = trace w"
  by (simp_all add: SetFileAndDirectoryGlobals_def Let_def)

lemma SetFileAndDirectoryGlobals_other [simp]:
  "a \<noteq> g \<Longrightarrow> heap (SetFileAndDirectoryGlobals E g p w) a = heap w a"
  by (simp add: SetFileAndDirectoryGlobals_def Let_def)

lemma ClearFileAndDirectoryGlobals_fields [simp]:
  "heap (ClearFileAndDirectoryGlobals g w) g =
     (heap w g)(kFileNameGlobal \<mapsto> Undefined, kDirNameGlobal \<mapsto> Undefined)"
  "next_addr (ClearFileAndDirectoryGlobals g w) = next_addr w"
  "current (ClearFileAndDirectoryGlobals g w) = current w"
  "token (ClearFileAndDirectoryGlobals g w) = token w"
  "pending (ClearFileAndDirectoryGlobals g w) = pending w"
  "trace (ClearFileAndDirectoryGlobals g w) = trace w"
  by (simp_all add: ClearFileAndDirectoryGlobals_def)

lemma ClearFileAndDirectoryGlobals_other [simp]:
  "a \<noteq> g \<Longrightarrow> heap (ClearFileAndDirectoryGlobals g w) a = heap w a"
  by (simp add: ClearFileAndDirectoryGlobals_def)

text \<open>IncludeScript on a file that can be read and parsed: the script runs in the world
  in which the identity globals have just been written, and they are cleared on the global
  object taken before the run.\<close>

lemma IncludeScript_runs:
  assumes "path \<noteq> []" and "fs E path = Some src" and "syntax_ok E src"
  shows "IncludeScript E (Some path) w =
    (case Script_Run E (Script src path)
            (SetFileAndDirectoryGlobals E (current w) path
               (w\<lparr>trace := trace w @ [EvRead path, EvCompile path]\<rparr>)) of
       (r, w4) \<Rightarrow> (Returned r, r = None, ClearFileAndDirectoryGlobals (current w) w4))"
  using assms
  by (auto simp: IncludeScript_def createV8StringFromFile_def Script_Compile_def Let_def
      split: prod.splits option.splits)

text \<open>The loop over a list in two parts goes on with the second part exactly when the
  first part ran to its end.\<close>

lemma Require_loop_append:
  "Require_loop E g (xs @ ys) w =
     (case Require_loop E g xs w of
        (Completed, w1) \<Rightarrow> Require_loop E g ys w1
      | r \<Rightarrow> r)"
  by (induction E g xs w rule: Require_loop.induct)
     (simp_all add: Let_def ThrowException_def split: prod.splits outcome.splits)

lemma Require_loop_not_string:
  "\<not> IsString v \<Longrightarrow>
     Require_loop E g (v # rest) w =
       (Rejected Undefined,
        w\<lparr>pending := Some (Err ''All elements of file paths array must be strings.'')\<rparr>)"
  by (cases v) (simp_all add: ThrowException_def Exception_Error_def)

lemma Require_loop_Rejected:
  "Require_loop E g files w = (Rejected v, wl) \<Longrightarrow>
     v = Undefined \<and>
     pending wl = Some (Err ''All elements of file paths array must be strings.'') \<and>
     (\<exists>x\<in>set files. \<not> IsString x)"
  by (induction E g files w rule: Require_loop.induct)
     (auto simp: Let_def ThrowException_def Exception_Error_def
           split: prod.splits outcome.splits if_splits)

lemma Require_loop_failing:
  assumes "Require_loop E g xs ws = (Completed, w1)"
      and "IncludeScript E (Some p) (SetFileAndDirectoryGlobals E g p w1) = (out, True, w2)"
  shows "Require_loop E g (xs @ Str p # ys) ws =
           (case out of Returned r \<Rightarrow> Broke | Thrown ex \<Rightarrow> Threw ex, w2)"
  using assms by (simp add: Require_loop_append split: outcome.splits)

text \<open>The loop ends at \<open>break\<close> only after a load that returned a handle and reported
  \<open>exceptionOccurred = True\<close>.\<close>

lemma Require_loop_Broke:
  "Require_loop E g files ws = (Broke, wl) \<Longrightarrow>
     \<exists>xs p ys r w1.
       files = xs @ Str p # ys \<and>
       Require_loop E g xs ws = (Completed, w1) \<and>
       IncludeScript E (Some p) (SetFileAndDirectoryGlobals E g p w1) = (Returned r, True, wl)"
proof (induction E g files ws rule: Require_loop.induct)
  case (1 E global w)
  then show ?case by simp
next
  case (2 E global fileName rest w)
  obtain out flag w2 where
    inc: "IncludeScript E (Some fileName) (SetFileAndDirectoryGlobals E global fileName w) =
            (out, flag, w2)"
    by (cases "IncludeScript E (Some fileName) (SetFileAndDirectoryGlobals E global fileName w)")
  show ?case
  proof (cases out)
    case (Thrown ex)
    with 2 inc show ?thesis by (simp add: Let_def)
  next
    case (Returned r)
    show ?thesis
    proof (cases flag)
      case True
      with 2 inc Returned have "wl = w2" by (simp add: Let_def)
      with inc Returned True
      have "Str fileName # rest = [] @ Str fileName # rest \<and>
            Require_loop E global [] w = (Completed, w) \<and>
            IncludeScript E (Some fileName) (SetFileAndDirectoryGlobals E global fileName w) =
              (Returned r, True, wl)"
        by simp
      then show ?thesis by blast
    next
      case False
      with 2 inc Returned have rest: "Require_loop E global rest w2 = (Broke, wl)"
        by (simp add: Let_def)
      from "2.IH" [OF refl, of out "(flag, w2)" r flag w2] inc Returned False rest
      obtain xs p ys r' w1 where
        "rest = xs @ Str p # ys" and
        "Require_loop E global xs w2 = (Completed, w1)" and
        "IncludeScript E (Some p) (SetFileAndDirectoryGlobals E global p w1) = (Returned r', True, wl)"
        by auto
      with inc Returned False
      have "Str fileName # rest = (Str fileName # xs) @ Str p # ys \<and>
            Require_loop E global (Str fileName # xs) w = (Completed, w1) \<and>
            IncludeScript E (Some p) (SetFileAndDirectoryGlobals E global p w1) = (Returned r', True, wl)"
        by (simp add: Let_def)
      then show ?thesis by blast
    qed
  qed
qed (simp_all add: ThrowException_def)

text \<open>The seeding part of Require.\<close>

lemma Require_seed_fst: "fst (Require_seed nativeRequire loader w) = next_addr w"
  by (simp add: Require_seed_def Context_New_def NewInstance_def Let_def)

lemma Require_seed_fields:
  "pending (snd (Require_seed nativeRequire loader w)) = pending w"
  "trace (snd (Require_seed nativeRequire loader w)) = trace w"
  "current (snd (Require_seed nativeRequire loader w)) = next_addr w"
  "next_addr (snd (Require_seed nativeRequire loader w)) = Suc (Suc (next_addr w))"
  by (simp_all add: Require_seed_def Context_New_def NewInstance_def SetSecurityToken_def Let_def)

lemma Require_seed_global:
  assumes "current w < next_addr w"
  shows "heap (snd (Require_seed nativeRequire loader w)) (next_addr w) =
       [''exports'' \<mapsto> Obj (Suc (next_addr w)),
        ''global'' \<mapsto> Obj (next_addr w),
        ''globals'' \<mapsto> Obj (current w),
        ''root'' \<mapsto> Obj (current w),
        ''MojoLoader'' \<mapsto> loader,
        ''require'' \<mapsto> nativeRequire,
        ''console'' \<mapsto> Object_Get (current w) ''console'' w,
        ''setTimeout'' \<mapsto> Object_Get (current w) ''setTimeout'' w,
        ''clearTimeout'' \<mapsto> Object_Get (current w) ''clearTimeout'' w,
        ''setInterval'' \<mapsto> Object_Get (current w) ''setInterval'' w,
        ''clearInterval'' \<mapsto> Object_Get (current w) ''clearInterval'' w]"
proof -
  have ne: "current w \<noteq> next_addr w" "current w \<noteq> Suc (next_addr w)"
    using assms by simp_all
  show ?thesis
    using ne
    by (simp add: Require_seed_def Context_New_def NewInstance_def SetSecurityToken_def
        GetSecurityToken_def Let_def Object_Get_def)
qed

lemma Require_seed_exports:
  "heap (snd (Require_seed nativeRequire loader w)) (Suc (next_addr w)) = Map.empty"
  by (simp add: Require_seed_def Context_New_def NewInstance_def SetSecurityToken_def Let_def)

lemma Require_seed_old:
  "a < next_addr w \<Longrightarrow> heap (snd (Require_seed nativeRequire loader w)) a = heap w a"
  by (simp add: Require_seed_def Context_New_def NewInstance_def SetSecurityToken_def Let_def)

lemma Require_nil:
  "Require E nr ld [] w =
     (Returned (Some (Obj (fst (Require_seed nr ld w)))),
      (ClearFileAndDirectoryGlobals (fst (Require_seed nr ld w)) (snd (Require_seed nr ld w)))
        \<lparr>current := current w\<rparr>)"
  by (simp add: Require_def split: prod.splits)

text \<open>The concrete system, evaluated.\<close>

lemma demo_world_fields [simp]:
  "next_addr demo_world = 9" "current demo_world = 0" "pending demo_world = None"
  "trace demo_world = []"
  by (simp_all add: demo_world_def)

lemma demo_env_fields [simp]:
  "fs demo_env ''a.js'' = Some ''exports.x = 1''"
  "fs demo_env ''b.js'' = Some ''throw 7''"
  "fs demo_env ''c.js'' = Some ''y = 2''"
  "fs demo_env ''bad.js'' = Some ''((''"
  "fs demo_env ''missing.js'' = None"
  "syntax_ok demo_env s = (s \<noteq> ''(('')"
  "syntax_error demo_env s = Some (Err ''SyntaxError'')"
  "run demo_env = demo_run"
  by (simp_all add: demo_env_def)

lemma demo_host_bindings:
  "Object_Get 0 ''console'' demo_world = Obj 1"
  "Object_Get 0 ''setTimeout'' demo_world = Fun 2"
  "Object_Get 0 ''clearTimeout'' demo_world = Fun 3"
  "Object_Get 0 ''setInterval'' demo_world = Fun 4"
  "Object_Get 0 ''clearInterval'' demo_world = Fun 5"
  by (simp_all add: Object_Get_def demo_world_def)

lemma demo_include_a:
  assumes "heap w (current w) ''exports'' = Some (Obj a)" and "a \<noteq> current w"
  shows "\<exists>wa. IncludeScript demo_env (Some ''a.js'') w = (Returned (Some (Number 1)), False, wa) \<and>
        pending wa = pending w \<and> current wa = current w \<and>
        heap wa a ''x'' = Some (Number 1) \<and>
        heap wa (current w) kFileNameGlobal = Some Undefined \<and>
        trace wa = trace w @ [EvRead ''a.js'', EvCompile ''a.js'', EvRun ''a.js'']"
proof -
  have "IncludeScript demo_env (Some ''a.js'') w =
    (case Script_Run demo_env (Script ''exports.x = 1'' ''a.js'')
            (SetFileAndDirectoryGlobals demo_env (current w) ''a.js''
               (w\<lparr>trace := trace w @ [EvRead ''a.js'', EvCompile ''a.js'']\<rparr>)) of
       (r, w4) \<Rightarrow> (Returned r, r = None, ClearFileAndDirectoryGlobals (current w) w4))"
    by (rule IncludeScript_runs) simp_all
  then show ?thesis
    using assms
    by (simp add: Script_Run_def demo_run_def script_name_def kFileNameGlobal_def kDirNameGlobal_def)
qed

lemma demo_include_c:
  "\<exists>wc. IncludeScript demo_env (Some ''c.js'') w = (Returned (Some (Number 2)), False, wc) \<and>
        pending wc = pending w \<and> current wc = current w \<and>
        heap wc (current w) ''y'' = Some (Number 2) \<and>
        heap wc (current w) kFileNameGlobal = Some Undefined \<and>
        heap wc (current w) kDirNameGlobal = Some Undefined \<and>
        trace wc = trace w @ [EvRead ''c.js'', EvCompile ''c.js'', EvRun ''c.js'']"
proof -
  have "IncludeScript demo_env (Some ''c.js'') w =
    (case Script_Run demo_env (Script ''y = 2'' ''c.js'')
            (SetFileAndDirectoryGlobals demo_env (current w) ''c.js''
               (w\<lparr>trace := trace w @ [EvRead ''c.js'', EvCompile ''c.js'']\<rparr>)) of
       (r, w4) \<Rightarrow> (Returned r, r = None, ClearFileAndDirectoryGlobals (current w) w4))"
    by (rule IncludeScript_runs) simp_all
  then show ?thesis
    by (simp add: Script_Run_def demo_run_def script_name_def kFileNameGlobal_def kDirNameGlobal_def)
qed

lemma demo_include_b:
  "\<exists>wb. IncludeScript demo_env (Some ''b.js'') w = (Returned None, True, wb) \<and>
        pending wb = Some (Number 7) \<and> current wb = current w \<and>
        (\<forall>a. a \<noteq> current w \<longrightarrow> heap wb a = heap w a) \<and>
        heap wb (current w) kFileNameGlobal = Some Undefined \<and>
        trace wb = trace w @ [EvRead ''b.js'', EvCompile ''b.js'', EvRun ''b.js'']"
proof -
  have "IncludeScript demo_env (Some ''b.js'') w =
    (case Script_Run demo_env (Script ''throw 7'' ''b.js'')
            (SetFileAndDirectoryGlobals demo_env (current w) ''b.js''
               (w\<lparr>trace := trace w @ [EvRead ''b.js'', EvCompile ''b.js'']\<rparr>)) of
       (r, w4) \<Rightarrow> (Returned r, r = None, ClearFileAndDirectoryGlobals (current w) w4))"
    by (rule IncludeScript_runs) simp_all
  then show ?thesis
    by (simp add: Script_Run_def demo_run_def script_name_def kFileNameGlobal_def kDirNameGlobal_def)
qed

lemma demo_seed: "Require_seed (Fun 7) (Obj 8) demo_world = (9, demo_seeded)"
  using Require_seed_fst [of "Fun 7" "Obj 8" demo_world]
  by (simp add: demo_seeded_def prod_eq_iff)

lemma demo_seeded_fields [simp]:
  "current demo_seeded = 9" "pending demo_seeded = None" "trace demo_seeded = []"
  by (simp_all add: demo_seeded_def Require_seed_fields)

lemma demo_seeded_global:
  "heap demo_seeded 9 =
     [''exports'' \<mapsto> Obj 10, ''global'' \<mapsto> Obj 9, ''globals'' \<mapsto> Obj 0, ''root'' \<mapsto> Obj 0,
      ''MojoLoader'' \<mapsto> Obj 8, ''require'' \<mapsto> Fun 7, ''console'' \<mapsto> Obj 1,
      ''setTimeout'' \<mapsto> Fun 2, ''clearTimeout'' \<mapsto> Fun 3, ''setInterval'' \<mapsto> Fun 4,
      ''clearInterval'' \<mapsto> Fun 5]"
  using Require_seed_global [of demo_world "Fun 7" "Obj 8"]
  by (simp add: demo_seeded_def demo_host_bindings)

lemma demo_loop_a:
  "Require_loop demo_env 9 [Str ''a.js''] demo_seeded = (Completed, demo_after_a) \<and>
   current demo_after_a = 9 \<and> pending demo_after_a = None \<and>
   heap demo_after_a 10 ''x'' = Some (Number 1) \<and>
   trace demo_after_a = [EvRead ''a.js'', EvCompile ''a.js'', EvRun ''a.js'']"
proof -
  have e: "heap (SetFileAndDirectoryGlobals demo_env 9 ''a.js'' demo_seeded)
             (current (SetFileAndDirectoryGlobals demo_env 9 ''a.js'' demo_seeded)) ''exports'' =
           Some (Obj 10)"
    by (simp add: demo_seeded_global kFileNameGlobal_def kDirNameGlobal_def)
  have n: "10 \<noteq> current (SetFileAndDirectoryGlobals demo_env 9 ''a.js'' demo_seeded)"
    by simp
  obtain wa where
    "IncludeScript demo_env (Some ''a.js'') (SetFileAndDirectoryGlobals demo_env 9 ''a.js'' demo_seeded) =
       (Returned (Some (Number 1)), False, wa)"
    and "pending wa = None" and "current wa = 9" and "heap wa 10 ''x'' = Some (Number 1)"
    and "trace wa = [EvRead ''a.js'', EvCompile ''a.js'', EvRun ''a.js'']"
    using demo_include_a [OF e n] by auto
  then show ?thesis
    by (simp add: demo_after_a_def)
qed

lemma demo_include_b_after_a:
  "IncludeScript demo_env (Some ''b.js'') (SetFileAndDirectoryGlobals demo_env 9 ''b.js'' demo_after_a) =
     (Returned None, True, demo_after_b) \<and>
   pending demo_after_b = Some (Number 7) \<and>
   heap demo_after_b 10 ''x'' = Some (Number 1) \<and>
   trace demo_after_b =
     [EvRead ''a.js'', EvCompile ''a.js'', EvRun ''a.js'',
      EvRead ''b.js'', EvCompile ''b.js'', EvRun ''b.js'']"
proof -
  obtain wb where
    "IncludeScript demo_env (Some ''b.js'') (SetFileAndDirectoryGlobals demo_env 9 ''b.js'' demo_after_a) =
       (Returned None, True, wb)"
    and "pending wb = Some (Number 7)" and "heap wb 10 ''x'' = Some (Number 1)"
    and "trace wb =
     [EvRead ''a.js'', EvCompile ''a.js'', EvRun ''a.js'',
      EvRead ''b.js'', EvCompile ''b.js'', EvRun ''b.js'']"
    using demo_include_b [of "SetFileAndDirectoryGlobals demo_env 9 ''b.js'' demo_after_a"] demo_loop_a
    by auto
  then show ?thesis
    by (simp add: demo_after_b_def)
qed

lemma demo_loop_abc:
  "Require_loop demo_env 9 ([Str ''a.js''] @ Str ''b.js'' # ys) demo_seeded = (Broke, demo_after_b)"
  using Require_loop_failing [of demo_env 9 "[Str ''a.js'']" demo_seeded demo_after_a "''b.js''"
      "Returned None" demo_after_b ys] demo_loop_a demo_include_b_after_a
  by simp

lemma demo_loop_reject_after_a:
  "\<exists>wl. Require_loop demo_env 9 ([Str ''a.js''] @ [Number 1]) demo_seeded = (Rejected Undefined, wl)"
proof -
  have a: "Require_loop demo_env 9 [Str ''a.js''] demo_seeded = (Completed, demo_after_a)"
    using demo_loop_a by blast
  show ?thesis
    by (simp only: Require_loop_append a) (simp add: ThrowException_def)
qed

text \<open>The second engine.\<close>

lemma nested_env_fields [simp]:
  "fs nested_env ''outer.js'' = Some ''include(c.js); [__filename, __dirname]''"
  "fs nested_env ''c.js'' = Some ''y = 2''"
  "syntax_ok nested_env s = (s \<noteq> ''(('')"
  "run nested_env = nested_run"
  "system_complete nested_env p = ''/app/'' @ p"
  "parent_path nested_env p = ''/app''"
  by (simp_all add: nested_env_def demo_env_def)

lemma nested_run_other:
  "nested_run (Script ''y = 2'' name) w = demo_run (Script ''y = 2'' name) w"
  by (simp add: nested_run_def)

lemma nested_include_c:
  "IncludeScriptWrapper nested_env [Str ''c.js''] w = IncludeScriptWrapper demo_env [Str ''c.js''] w"
proof -
  have n: "IncludeScript nested_env (Some ''c.js'') w =
    (case Script_Run nested_env (Script ''y = 2'' ''c.js'')
            (SetFileAndDirectoryGlobals nested_env (current w) ''c.js''
               (w\<lparr>trace := trace w @ [EvRead ''c.js'', EvCompile ''c.js'']\<rparr>)) of
       (r, w4) \<Rightarrow> (Returned r, r = None, ClearFileAndDirectoryGlobals (current w) w4))"
    by (rule IncludeScript_runs) simp_all
  have d: "IncludeScript demo_env (Some ''c.js'') w =
    (case Script_Run demo_env (Script ''y = 2'' ''c.js'')
            (SetFileAndDirectoryGlobals demo_env (current w) ''c.js''
               (w\<lparr>trace := trace w @ [EvRead ''c.js'', EvCompile ''c.js'']\<rparr>)) of
       (r, w4) \<Rightarrow> (Returned r, r = None, ClearFileAndDirectoryGlobals (current w) w4))"
    by (rule IncludeScript_runs) simp_all
  have s: "\<And>v. SetFileAndDirectoryGlobals nested_env (current w) ''c.js'' v =
           SetFileAndDirectoryGlobals demo_env (current w) ''c.js'' v"
    by (simp add: SetFileAndDirectoryGlobals_def nested_env_def)
  show ?thesis
    by (simp add: IncludeScriptWrapper_def n d s Script_Run_def nested_run_other)
qed

section \<open>The claims\<close>

text \<open>
  C1, as amended. For a file that IncludeScript reads and compiles, the script is started
  in a world in which \<open>__filename\<close> and \<open>__dirname\<close> on the global object of the current
  context are the resolved absolute path of the file and the parent directory of that
  path. Whatever the run yields, a completion value or the empty handle of a thrown
  exception, IncludeScript returns that handle and the world in which both bindings on
  that same global object have been overwritten with \<open>Undefined\<close>. Nothing is said
  of the bindings while the script runs: that is the engine's part, \<open>run E\<close>.
\<close>

theorem include_identity_globals:
  assumes "path \<noteq> []" and "fs E path = Some src" and "syntax_ok E src"
  shows "let g = current w;
             w3 = SetFileAndDirectoryGlobals E g path
                    (w\<lparr>trace := trace w @ [EvRead path, EvCompile path]\<rparr>)
         in heap w3 g kFileNameGlobal = Some (Str (system_complete E path)) \<and>
            heap w3 g kDirNameGlobal = Some (Str (parent_path E (system_complete E path))) \<and>
            (case Script_Run E (Script src path) w3 of
               (r, w4) \<Rightarrow>
                 (case IncludeScript E (Some path) w of
                    (out, failed, w') \<Rightarrow>
                      out = Returned r \<and>
                      w' = ClearFileAndDirectoryGlobals g w4 \<and>
                      heap w' g kFileNameGlobal = Some Undefined \<and>
                      heap w' g kDirNameGlobal = Some Undefined))"
  using assms
  by (simp add: IncludeScript_runs Let_def split: prod.splits)

text \<open>C1, as amended, on the concrete system: c.js, resolved to /app/c.js in /app.\<close>

theorem include_identity_globals_witness:
  "''c.js'' \<noteq> [] \<and> fs demo_env ''c.js'' = Some ''y = 2'' \<and> syntax_ok demo_env ''y = 2'' \<and>
   (let g = current demo_world;
        w3 = SetFileAndDirectoryGlobals demo_env g ''c.js''
               (demo_world\<lparr>trace := trace demo_world @ [EvRead ''c.js'', EvCompile ''c.js'']\<rparr>)
    in heap w3 g kFileNameGlobal = Some (Str (system_complete demo_env ''c.js'')) \<and>
       heap w3 g kDirNameGlobal = Some (Str (parent_path demo_env (system_complete demo_env ''c.js''))) \<and>
       (case Script_Run demo_env (Script ''y = 2'' ''c.js'') w3 of
          (r, w4) \<Rightarrow>
            (case IncludeScript demo_env (Some ''c.js'') demo_world of
               (out, failed, w') \<Rightarrow>
                 out = Returned r \<and>
                 w' = ClearFileAndDirectoryGlobals g w4 \<and>
                 heap w' g kFileNameGlobal = Some Undefined \<and>
                 heap w' g kDirNameGlobal = Some Undefined))) \<and>
   system_complete demo_env ''c.js'' = ''/app/c.js'' \<and>
   parent_path demo_env (system_complete demo_env ''c.js'') = ''/app'' \<and>
   fst (IncludeScript demo_env (Some ''c.js'') demo_world) = Returned (Some (Number 2))"
proof -
  have h1: "''c.js'' \<noteq> []" by simp
  have h2: "fs demo_env ''c.js'' = Some ''y = 2''" by simp
  have h3: "syntax_ok demo_env ''y = 2''" by simp
  have p: "system_complete demo_env ''c.js'' = ''/app/c.js''"
    "parent_path demo_env (system_complete demo_env ''c.js'') = ''/app''"
    by (simp_all add: demo_env_def)
  have r: "fst (IncludeScript demo_env (Some ''c.js'') demo_world) = Returned (Some (Number 2))"
    using demo_include_c [of demo_world] by auto
  from include_identity_globals [OF h1 h2 h3, of demo_world] h1 h2 h3 p r show ?thesis by blast
qed

text \<open>
  C1 as stated fails. The claim has the identity globals equal to the path and directory
  of the file for the duration of its execution. The file outer.js is read and compiled
  and is started with \<open>__filename\<close> bound to /app/outer.js; its script includes c.js and
  then reads the two identity globals. The nested IncludeScript has cleared them on its
  return and nothing restores them, so outer.js, still running, reads \<open>Undefined\<close> for
  both and completes with that pair: IncludeScript keeps one pair of bindings per global
  object and has no record of the file that was running before.
\<close>

theorem include_nested_counterexample:
  "''outer.js'' \<noteq> [] \<and>
   fs nested_env ''outer.js'' = Some ''include(c.js); [__filename, __dirname]'' \<and>
   syntax_ok nested_env ''include(c.js); [__filename, __dirname]'' \<and>
   heap (SetFileAndDirectoryGlobals nested_env (current demo_world) ''outer.js''
           (demo_world\<lparr>trace := trace demo_world @ [EvRead ''outer.js'', EvCompile ''outer.js'']\<rparr>))
        (current demo_world) kFileNameGlobal = Some (Str ''/app/outer.js'') \<and>
   fst (IncludeScript nested_env (Some ''outer.js'') demo_world) =
     Returned (Some (Arr [Undefined, Undefined])) \<and>
   fst (snd (IncludeScript nested_env (Some ''outer.js'') demo_world)) = False \<and>
   trace (snd (snd (IncludeScript nested_env (Some ''outer.js'') demo_world))) =
     [EvRead ''outer.js'', EvCompile ''outer.js'', EvRun ''outer.js'',
      EvRead ''c.js'', EvCompile ''c.js'', EvRun ''c.js'']"
proof -
  let ?w3 = "(SetFileAndDirectoryGlobals nested_env (current demo_world) ''outer.js''
               (demo_world\<lparr>trace := trace demo_world @ [EvRead ''outer.js'', EvCompile ''outer.js'']\<rparr>))
             \<lparr>trace := [EvRead ''outer.js'', EvCompile ''outer.js'', EvRun ''outer.js'']\<rparr>"
  have o: "IncludeScript nested_env (Some ''outer.js'') demo_world =
    (case Script_Run nested_env (Script ''include(c.js); [__filename, __dirname]'' ''outer.js'')
            (SetFileAndDirectoryGlobals nested_env (current demo_world) ''outer.js''
               (demo_world\<lparr>trace := trace demo_world @ [EvRead ''outer.js'', EvCompile ''outer.js'']\<rparr>)) of
       (r, w4) \<Rightarrow> (Returned r, r = None, ClearFileAndDirectoryGlobals (current demo_world) w4))"
    by (rule IncludeScript_runs) simp_all
  obtain wc where
    c: "IncludeScript demo_env (Some ''c.js'') ?w3 = (Returned (Some (Number 2)), False, wc)"
    and cur: "current wc = 0"
    and f: "heap wc 0 kFileNameGlobal = Some Undefined"
    and d: "heap wc 0 kDirNameGlobal = Some Undefined"
    and t: "trace wc = [EvRead ''outer.js'', EvCompile ''outer.js'', EvRun ''outer.js'',
                        EvRead ''c.js'', EvCompile ''c.js'', EvRun ''c.js'']"
    using demo_include_c [of ?w3] by auto
  have w: "IncludeScriptWrapper demo_env [Str ''c.js''] ?w3 = (Some (Number 2), wc)"
    unfolding IncludeScriptWrapper_def
    by (simp only: Utf8Value.simps list.case c prod.case outcome.case)
  have r: "Script_Run nested_env (Script ''include(c.js); [__filename, __dirname]'' ''outer.js'')
            (SetFileAndDirectoryGlobals nested_env (current demo_world) ''outer.js''
               (demo_world\<lparr>trace := trace demo_world @ [EvRead ''outer.js'', EvCompile ''outer.js'']\<rparr>)) =
           (Some (Arr [Undefined, Undefined]), wc)"
    using w by (simp add: Script_Run_def script_name_def nested_run_def Object_Get_def cur f d)
  show ?thesis
    by (simp only: o r) (simp add: t)
qed

text \<open>
  C2, as amended. Require on an empty file list returns the global object of the new
  context, and the bindings of that object are exactly these thirteen: \<open>exports\<close>, a
  newly allocated object without properties; \<open>global\<close>, the new global object itself
  (this one name only); \<open>globals\<close> and \<open>root\<close>, the global object of the caller;
  \<open>MojoLoader\<close>, the loader argument; \<open>require\<close>, the nativeRequire argument; the
  five names \<open>console\<close>, \<open>setTimeout\<close>, \<open>clearTimeout\<close>, \<open>setInterval\<close> and
  \<open>clearInterval\<close>, each bound to what the caller's global object gives for it; and
  \<open>__filename\<close> and \<open>__dirname\<close>, bound to \<open>Undefined\<close> by the clearing that follows
  the loop. The caller's global object is an object allocated before the call.
\<close>

theorem Require_empty_bindings:
  assumes "current w < next_addr w"
  shows "case Require E nativeRequire loader [] w of
           (out, w') \<Rightarrow>
             out = Returned (Some (Obj (next_addr w))) \<and>
             heap w' (next_addr w) =
               [''exports'' \<mapsto> Obj (Suc (next_addr w)),
                ''global'' \<mapsto> Obj (next_addr w),
                ''globals'' \<mapsto> Obj (current w),
                ''root'' \<mapsto> Obj (current w),
                ''MojoLoader'' \<mapsto> loader,
                ''require'' \<mapsto> nativeRequire,
                ''console'' \<mapsto> Object_Get (current w) ''console'' w,
                ''setTimeout'' \<mapsto> Object_Get (current w) ''setTimeout'' w,
                ''clearTimeout'' \<mapsto> Object_Get (current w) ''clearTimeout'' w,
                ''setInterval'' \<mapsto> Object_Get (current w) ''setInterval'' w,
                ''clearInterval'' \<mapsto> Object_Get (current w) ''clearInterval'' w,
                kFileNameGlobal \<mapsto> Undefined,
                kDirNameGlobal \<mapsto> Undefined] \<and>
             heap w' (Suc (next_addr w)) = Map.empty \<and>
             dom (heap w' (next_addr w)) =
               {kDirNameGlobal, kFileNameGlobal,
                ''clearInterval'', ''setInterval'', ''clearTimeout'', ''setTimeout'', ''console'',
                ''require'', ''MojoLoader'', ''root'', ''globals'', ''global'', ''exports''}"
  by (simp add: Require_nil Require_seed_fst Require_seed_global [OF assms] Require_seed_exports)

text \<open>C2, as amended, on the concrete system.\<close>

theorem Require_empty_bindings_witness:
  "current demo_world < next_addr demo_world \<and>
   (case Require demo_env (Fun 7) (Obj 8) [] demo_world of
           (out, w') \<Rightarrow>
             out = Returned (Some (Obj (next_addr demo_world))) \<and>
             heap w' (next_addr demo_world) =
               [''exports'' \<mapsto> Obj (Suc (next_addr demo_world)),
                ''global'' \<mapsto> Obj (next_addr demo_world),
                ''globals'' \<mapsto> Obj (current demo_world),
                ''root'' \<mapsto> Obj (current demo_world),
                ''MojoLoader'' \<mapsto> Obj 8,
                ''require'' \<mapsto> Fun 7,
                ''console'' \<mapsto> Object_Get (current demo_world) ''console'' demo_world,
                ''setTimeout'' \<mapsto> Object_Get (current demo_world) ''setTimeout'' demo_world,
                ''clearTimeout'' \<mapsto> Object_Get (current demo_world) ''clearTimeout'' demo_world,
                ''setInterval'' \<mapsto> Object_Get (current demo_world) ''setInterval'' demo_world,
                ''clearInterval'' \<mapsto> Object_Get (current demo_world) ''clearInterval'' demo_world,
                kFileNameGlobal \<mapsto> Undefined,
                kDirNameGlobal \<mapsto> Undefined] \<and>
             heap w' (Suc (next_addr demo_world)) = Map.empty \<and>
             dom (heap w' (next_addr demo_world)) =
               {kDirNameGlobal, kFileNameGlobal,
                ''clearInterval'', ''setInterval'', ''clearTimeout'', ''setTimeout'', ''console'',
                ''require'', ''MojoLoader'', ''root'', ''globals'', ''global'', ''exports''})"
proof -
  have h: "current demo_world < next_addr demo_world" by simp
  from h Require_empty_bindings [OF h, where E = demo_env and nativeRequire = "Fun 7" and loader = "Obj 8"] show ?thesis by (rule conjI)
qed

text \<open>
  C2 as stated fails. The claim lists eleven bindings: one for exports, two aliases of the
  new global object, two of the host global object, the loader, require, and four copied
  host names. On the concrete system the returned global object has thirteen bindings;
  one name only, \<open>global\<close>, is bound to the new global object; five host names are
  copied; and the two identity globals are bound as well.
\<close>

theorem Require_empty_counterexample:
  "case Require demo_env (Fun 7) (Obj 8) [] demo_world of
     (out, w') \<Rightarrow>
       out = Returned (Some (Obj 9)) \<and>
       card (dom (heap w' 9)) = 13 \<and>
       {n. heap w' 9 n = Some (Obj 9)} = {''global''} \<and>
       heap w' 9 ''console'' = Some (Obj 1) \<and> heap demo_world 0 ''console'' = Some (Obj 1) \<and>
       heap w' 9 ''setTimeout'' = Some (Fun 2) \<and> heap demo_world 0 ''setTimeout'' = Some (Fun 2) \<and>
       heap w' 9 ''clearTimeout'' = Some (Fun 3) \<and> heap demo_world 0 ''clearTimeout'' = Some (Fun 3) \<and>
       heap w' 9 ''setInterval'' = Some (Fun 4) \<and> heap demo_world 0 ''setInterval'' = Some (Fun 4) \<and>
       heap w' 9 ''clearInterval'' = Some (Fun 5) \<and> heap demo_world 0 ''clearInterval'' = Some (Fun 5) \<and>
       heap w' 9 kFileNameGlobal = Some Undefined \<and>
       heap w' 9 kDirNameGlobal = Some Undefined"
proof -
  have g: "fst (Require_seed (Fun 7) (Obj 8) demo_world) = 9"
    and s: "snd (Require_seed (Fun 7) (Obj 8) demo_world) = demo_seeded"
    by (simp_all add: demo_seed)
  have host: "heap demo_world 0 ''console'' = Some (Obj 1)"
    "heap demo_world 0 ''setTimeout'' = Some (Fun 2)"
    "heap demo_world 0 ''clearTimeout'' = Some (Fun 3)"
    "heap demo_world 0 ''setInterval'' = Some (Fun 4)"
    "heap demo_world 0 ''clearInterval'' = Some (Fun 5)"
    by (simp_all add: demo_world_def)
  show ?thesis
    by (simp add: Require_nil g s host)
       (auto simp: demo_seeded_global kFileNameGlobal_def kDirNameGlobal_def)
qed

text \<open>
  C3. Let the loop of Require have run over the elements \<open>xs\<close> to the end, and let the
  load of the next element, the file \<open>p\<close>, report \<open>exceptionOccurred = True\<close>. Then the
  loop ends in the world that this load left, whatever elements \<open>ys\<close> follow: nothing of
  \<open>ys\<close> is read, compiled or run, the trace of calls of the whole Require is the trace
  at the end of that load, and the result of Require is the one for the list cut after
  \<open>p\<close>. The world at the end of that load comes from the world the earlier files left,
  so their effects stand.
\<close>

theorem Require_fail_fast:
  assumes "Require_seed nativeRequire loader w = (g, ws)"
      and "Require_loop E g xs ws = (Completed, w1)"
      and "IncludeScript E (Some p) (SetFileAndDirectoryGlobals E g p w1) = (out, True, w2)"
  shows "Require_loop E g (xs @ Str p # ys) ws =
           (case out of Returned r \<Rightarrow> Broke | Thrown ex \<Rightarrow> Threw ex, w2) \<and>
         Require E nativeRequire loader (xs @ Str p # ys) w =
           Require E nativeRequire loader (xs @ [Str p]) w \<and>
         trace (snd (Require E nativeRequire loader (xs @ Str p # ys) w)) = trace w2"
proof -
  have l: "\<And>zs. Require_loop E g (xs @ Str p # zs) ws =
             (case out of Returned r \<Rightarrow> Broke | Thrown ex \<Rightarrow> Threw ex, w2)"
    using assms(2,3) by (rule Require_loop_failing)
  show ?thesis
    using assms(1) by (simp add: l Require_def split: outcome.splits)
qed

text \<open>C3 on the concrete system: a.js completes, b.js throws, c.js is never read.\<close>

theorem Require_fail_fast_witness:
  "Require_seed (Fun 7) (Obj 8) demo_world = (9, demo_seeded) \<and>
   Require_loop demo_env 9 [Str ''a.js''] demo_seeded = (Completed, demo_after_a) \<and>
   IncludeScript demo_env (Some ''b.js'') (SetFileAndDirectoryGlobals demo_env 9 ''b.js'' demo_after_a) =
     (Returned None, True, demo_after_b) \<and>
   Require_loop demo_env 9 ([Str ''a.js''] @ Str ''b.js'' # [Str ''c.js'']) demo_seeded =
     (case Returned None of Returned r \<Rightarrow> Broke | Thrown ex \<Rightarrow> Threw ex, demo_after_b) \<and>
   Require demo_env (Fun 7) (Obj 8) ([Str ''a.js''] @ Str ''b.js'' # [Str ''c.js'']) demo_world =
     Require demo_env (Fun 7) (Obj 8) ([Str ''a.js''] @ [Str ''b.js'']) demo_world \<and>
   trace (snd (Require demo_env (Fun 7) (Obj 8) ([Str ''a.js''] @ Str ''b.js'' # [Str ''c.js''])
                 demo_world)) = trace demo_after_b \<and>
   trace demo_after_b =
     [EvRead ''a.js'', EvCompile ''a.js'', EvRun ''a.js'',
      EvRead ''b.js'', EvCompile ''b.js'', EvRun ''b.js'']"
proof -
  have h1: "Require_seed (Fun 7) (Obj 8) demo_world = (9, demo_seeded)"
    by (rule demo_seed)
  have h2: "Require_loop demo_env 9 [Str ''a.js''] demo_seeded = (Completed, demo_after_a)"
    using demo_loop_a by blast
  have h3: "IncludeScript demo_env (Some ''b.js'')
              (SetFileAndDirectoryGlobals demo_env 9 ''b.js'' demo_after_a) =
              (Returned None, True, demo_after_b)"
    using demo_include_b_after_a by blast
  have t: "trace demo_after_b =
     [EvRead ''a.js'', EvCompile ''a.js'', EvRun ''a.js'',
      EvRead ''b.js'', EvCompile ''b.js'', EvRun ''b.js'']"
    using demo_include_b_after_a by blast
  from Require_fail_fast [OF h1 h2 h3, of "[Str ''c.js'']"] h1 h2 h3 t
  show ?thesis by blast
qed

text \<open>
  C4. For a file that IncludeScript reads and compiles: if the run yields the empty handle
  (the script threw), IncludeScript returns the empty handle with
  \<open>exceptionOccurred = True\<close>, and the exception scheduled in the engine is the one the
  run left; if the run yields a value, IncludeScript returns that value with
  \<open>exceptionOccurred = False\<close>. When such a throwing load happens inside the loop of
  Require, Require returns with the same exception still scheduled, so the caller sees it
  thrown.
\<close>

theorem runtime_exception_propagates:
  "(path \<noteq> [] \<and> fs E path = Some src \<and> syntax_ok E src \<longrightarrow>
      (case Script_Run E (Script src path)
              (SetFileAndDirectoryGlobals E (current w) path
                 (w\<lparr>trace := trace w @ [EvRead path, EvCompile path]\<rparr>)) of
         (r, w4) \<Rightarrow>
           (case IncludeScript E (Some path) w of
              (out, failed, w') \<Rightarrow>
                out = Returned r \<and> failed = (r = None) \<and> pending w' = pending w4))) \<and>
   (Require_seed nativeRequire loader w0 = (g, ws) \<and>
    Require_loop E g xs ws = (Completed, w1) \<and>
    IncludeScript E (Some p) (SetFileAndDirectoryGlobals E g p w1) = (Returned None, True, w2) \<longrightarrow>
      fst (Require E nativeRequire loader (xs @ Str p # ys) w0) = Returned (Some (Obj g)) \<and>
      pending (snd (Require E nativeRequire loader (xs @ Str p # ys) w0)) = pending w2)"
proof (intro conjI impI)
  assume "path \<noteq> [] \<and> fs E path = Some src \<and> syntax_ok E src"
  then show "case Script_Run E (Script src path)
              (SetFileAndDirectoryGlobals E (current w) path
                 (w\<lparr>trace := trace w @ [EvRead path, EvCompile path]\<rparr>)) of
         (r, w4) \<Rightarrow>
           (case IncludeScript E (Some path) w of
              (out, failed, w') \<Rightarrow>
                out = Returned r \<and> failed = (r = None) \<and> pending w' = pending w4)"
    by (simp add: IncludeScript_runs split: prod.splits)
next
  assume a: "Require_seed nativeRequire loader w0 = (g, ws) \<and>
    Require_loop E g xs ws = (Completed, w1) \<and>
    IncludeScript E (Some p) (SetFileAndDirectoryGlobals E g p w1) = (Returned None, True, w2)"
  then have l: "Require_loop E g (xs @ Str p # ys) ws = (Broke, w2)"
    using Require_loop_failing [of E g xs ws w1 p "Returned None" w2 ys] by simp
  show "fst (Require E nativeRequire loader (xs @ Str p # ys) w0) = Returned (Some (Obj g))"
    using a by (simp add: l Require_def)
  show "pending (snd (Require E nativeRequire loader (xs @ Str p # ys) w0)) = pending w2"
    using a by (simp add: l Require_def)
qed

text \<open>C4 on the concrete system: b.js throws 7, and 7 is scheduled when Require returns.\<close>

theorem runtime_exception_propagates_witness:
  "(''b.js'' \<noteq> [] \<and> fs demo_env ''b.js'' = Some ''throw 7'' \<and> syntax_ok demo_env ''throw 7'') \<and>
   (case Script_Run demo_env (Script ''throw 7'' ''b.js'')
           (SetFileAndDirectoryGlobals demo_env (current demo_world) ''b.js''
              (demo_world\<lparr>trace := trace demo_world @ [EvRead ''b.js'', EvCompile ''b.js'']\<rparr>)) of
      (r, w4) \<Rightarrow>
        (case IncludeScript demo_env (Some ''b.js'') demo_world of
           (out, failed, w') \<Rightarrow>
             out = Returned r \<and> failed = (r = None) \<and> pending w' = pending w4)) \<and>
   (Require_seed (Fun 7) (Obj 8) demo_world = (9, demo_seeded) \<and>
    Require_loop demo_env 9 [Str ''a.js''] demo_seeded = (Completed, demo_after_a) \<and>
    IncludeScript demo_env (Some ''b.js'') (SetFileAndDirectoryGlobals demo_env 9 ''b.js'' demo_after_a) =
      (Returned None, True, demo_after_b)) \<and>
   fst (Require demo_env (Fun 7) (Obj 8) ([Str ''a.js''] @ Str ''b.js'' # [Str ''c.js'']) demo_world) =
     Returned (Some (Obj 9)) \<and>
   pending (snd (Require demo_env (Fun 7) (Obj 8) ([Str ''a.js''] @ Str ''b.js'' # [Str ''c.js''])
                   demo_world)) = pending demo_after_b \<and>
   pending demo_after_b = Some (Number 7)"
proof -
  have a: "''b.js'' \<noteq> [] \<and> fs demo_env ''b.js'' = Some ''throw 7'' \<and> syntax_ok demo_env ''throw 7''"
    by simp
  have c: "Require_seed (Fun 7) (Obj 8) demo_world = (9, demo_seeded) \<and>
    Require_loop demo_env 9 [Str ''a.js''] demo_seeded = (Completed, demo_after_a) \<and>
    IncludeScript demo_env (Some ''b.js'') (SetFileAndDirectoryGlobals demo_env 9 ''b.js'' demo_after_a) =
      (Returned None, True, demo_after_b)"
    using demo_seed demo_loop_a demo_include_b_after_a by blast
  have p: "pending demo_after_b = Some (Number 7)"
    using demo_include_b_after_a by blast
  note t = runtime_exception_propagates [where path = "''b.js''" and E = demo_env and src = "''throw 7''"
      and w = demo_world and nativeRequire = "Fun 7" and loader = "Obj 8" and ?w0.0 = demo_world
      and g = 9 and ws = demo_seeded and xs = "[Str ''a.js'']" and ?w1.0 = demo_after_a
      and p = "''b.js''" and ?w2.0 = demo_after_b and ys = "[Str ''c.js'']"]
  note ca = t [THEN conjunct1, THEN mp, OF a]
  note cb = t [THEN conjunct2, THEN mp, OF c]
  from a ca c cb p show ?thesis by (simp only: simp_thms)
qed

text \<open>
  C5, as amended. When the loop of Require ends because it ran over the whole list or
  because a load reported \<open>exceptionOccurred = True\<close> and the loop met \<open>break\<close>,
  ClearFileAndDirectoryGlobals is applied once to the world the loop left, and Require
  returns the new global object with both identity globals bound to \<open>Undefined\<close>. When
  the loop meets an element that is not a string, Require returns at once the handle of
  ThrowException with the error scheduled, and the world is the one the loop left: the
  identity globals are not cleared on this path. Nothing is stated for a C++ exception
  that passes through the loop.
\<close>

theorem Require_clears_after_loop:
  assumes "Require_seed nativeRequire loader w = (g, ws)"
  shows "case Require_loop E g files ws of
           (Completed, wl) \<Rightarrow>
             Require E nativeRequire loader files w =
               (Returned (Some (Obj g)), (ClearFileAndDirectoryGlobals g wl)\<lparr>current := current w\<rparr>) \<and>
             heap (snd (Require E nativeRequire loader files w)) g kFileNameGlobal = Some Undefined \<and>
             heap (snd (Require E nativeRequire loader files w)) g kDirNameGlobal = Some Undefined
         | (Broke, wl) \<Rightarrow>
             Require E nativeRequire loader files w =
               (Returned (Some (Obj g)), (ClearFileAndDirectoryGlobals g wl)\<lparr>current := current w\<rparr>) \<and>
             heap (snd (Require E nativeRequire loader files w)) g kFileNameGlobal = Some Undefined \<and>
             heap (snd (Require E nativeRequire loader files w)) g kDirNameGlobal = Some Undefined
         | (Rejected v, wl) \<Rightarrow>
             Require E nativeRequire loader files w =
               (Returned (Some Undefined), wl\<lparr>current := current w\<rparr>) \<and>
             pending wl = Some (Err ''All elements of file paths array must be strings.'') \<and>
             (\<exists>x\<in>set files. \<not> IsString x)
         | (Threw ex, wl) \<Rightarrow> True"
proof (cases "Require_loop E g files ws")
  case (Pair ex wl)
  show ?thesis
  proof (cases ex)
    case (Rejected v)
    with Pair Require_loop_Rejected [of E g files ws v wl] assms show ?thesis
      by (simp add: Require_def)
  qed (use Pair assms in \<open>simp_all add: Require_def\<close>)
qed

text \<open>C5, as amended, on the concrete system: a list on which the loop meets
  \<open>break\<close>, and a list with an element that is not a string.\<close>

theorem Require_clears_after_loop_witness:
  "Require_seed (Fun 7) (Obj 8) demo_world = (9, demo_seeded) \<and>
   fst (Require_loop demo_env 9 ([Str ''a.js''] @ Str ''b.js'' # [Str ''c.js'']) demo_seeded) = Broke \<and>
   (case Require_loop demo_env 9 ([Str ''a.js''] @ Str ''b.js'' # [Str ''c.js'']) demo_seeded of
           (Completed, wl) \<Rightarrow>
             Require demo_env (Fun 7) (Obj 8) ([Str ''a.js''] @ Str ''b.js'' # [Str ''c.js'']) demo_world =
               (Returned (Some (Obj 9)), (ClearFileAndDirectoryGlobals 9 wl)\<lparr>current := current demo_world\<rparr>) \<and>
             heap (snd (Require demo_env (Fun 7) (Obj 8) ([Str ''a.js''] @ Str ''b.js'' # [Str ''c.js'']) demo_world)) 9 kFileNameGlobal = Some Undefined \<and>
             heap (snd (Require demo_env (Fun 7) (Obj 8) ([Str ''a.js''] @ Str ''b.js'' # [Str ''c.js'']) demo_world)) 9 kDirNameGlobal = Some Undefined
         | (Broke, wl) \<Rightarrow>
             Require demo_env (Fun 7) (Obj 8) ([Str ''a.js''] @ Str ''b.js'' # [Str ''c.js'']) demo_world =
               (Returned (Some (Obj 9)), (ClearFileAndDirectoryGlobals 9 wl)\<lparr>current := current demo_world\<rparr>) \<and>
             heap (snd (Require demo_env (Fun 7) (Obj 8) ([Str ''a.js''] @ Str ''b.js'' # [Str ''c.js'']) demo_world)) 9 kFileNameGlobal = Some Undefined \<and>
             heap (snd (Require demo_env (Fun 7) (Obj 8) ([Str ''a.js''] @ Str ''b.js'' # [Str ''c.js'']) demo_world)) 9 kDirNameGlobal = Some Undefined
         | (Rejected v, wl) \<Rightarrow>
             Require demo_env (Fun 7) (Obj 8) ([Str ''a.js''] @ Str ''b.js'' # [Str ''c.js'']) demo_world =
               (Returned (Some Undefined), wl\<lparr>current := current demo_world\<rparr>) \<and>
             pending wl = Some (Err ''All elements of file paths array must be strings.'') \<and>
             (\<exists>x\<in>set ([Str ''a.js''] @ Str ''b.js'' # [Str ''c.js'']). \<not> IsString x)
         | (Threw ex, wl) \<Rightarrow> True) \<and>
   fst (Require_loop demo_env 9 ([Str ''a.js''] @ [Number 1]) demo_seeded) = Rejected Undefined \<and>
   (case Require_loop demo_env 9 ([Str ''a.js''] @ [Number 1]) demo_seeded of
           (Completed, wl) \<Rightarrow>
             Require demo_env (Fun 7) (Obj 8) ([Str ''a.js''] @ [Number 1]) demo_world =
               (Returned (Some (Obj 9)), (ClearFileAndDirectoryGlobals 9 wl)\<lparr>current := current demo_world\<rparr>) \<and>
             heap (snd (Require demo_env (Fun 7) (Obj 8) ([Str ''a.js''] @ [Number 1]) demo_world)) 9 kFileNameGlobal = Some Undefined \<and>
             heap (snd (Require demo_env (Fun 7) (Obj 8) ([Str ''a.js''] @ [Number 1]) demo_world)) 9 kDirNameGlobal = Some Undefined
         | (Broke, wl) \<Rightarrow>
             Require demo_env (Fun 7) (Obj 8) ([Str ''a.js''] @ [Number 1]) demo_world =
               (Returned (Some (Obj 9)), (ClearFileAndDirectoryGlobals 9 wl)\<lparr>current := current demo_world\<rparr>) \<and>
             heap (snd (Require demo_env (Fun 7) (Obj 8) ([Str ''a.js''] @ [Number 1]) demo_world)) 9 kFileNameGlobal = Some Undefined \<and>
             heap (snd (Require demo_env (Fun 7) (Obj 8) ([Str ''a.js''] @ [Number 1]) demo_world)) 9 kDirNameGlobal = Some Undefined
         | (Rejected v, wl) \<Rightarrow>
             Require demo_env (Fun 7) (Obj 8) ([Str ''a.js''] @ [Number 1]) demo_world =
               (Returned (Some Undefined), wl\<lparr>current := current demo_world\<rparr>) \<and>
             pending wl = Some (Err ''All elements of file paths array must be strings.'') \<and>
             (\<exists>x\<in>set ([Str ''a.js''] @ [Number 1]). \<not> IsString x)
         | (Threw ex, wl) \<Rightarrow> True)"
proof -
  have h: "Require_seed (Fun 7) (Obj 8) demo_world = (9, demo_seeded)"
    by (rule demo_seed)
  have b: "fst (Require_loop demo_env 9 ([Str ''a.js''] @ Str ''b.js'' # [Str ''c.js'']) demo_seeded) = Broke"
    by (simp only: demo_loop_abc fst_conv)
  have r: "fst (Require_loop demo_env 9 ([Str ''a.js''] @ [Number 1]) demo_seeded) = Rejected Undefined"
    using demo_loop_reject_after_a by auto
  from h b r
    Require_clears_after_loop [OF h, of demo_env "[Str ''a.js''] @ Str ''b.js'' # [Str ''c.js'']"]
    Require_clears_after_loop [OF h, of demo_env "[Str ''a.js''] @ [Number 1]"]
  show ?thesis by blast
qed

text \<open>
  C5 as stated fails. On the list whose only element is the number 1, Require returns
  \<open>Undefined\<close> with the error scheduled, and the new global object has no binding for
  \<open>__filename\<close> or \<open>__dirname\<close>: ClearFileAndDirectoryGlobals, which binds both, was
  not applied.
\<close>

theorem Require_non_string_counterexample:
  "case Require demo_env (Fun 7) (Obj 8) [Number 1] demo_world of
     (out, w') \<Rightarrow>
       out = Returned (Some Undefined) \<and>
       pending w' = Some (Err ''All elements of file paths array must be strings.'') \<and>
       heap w' 9 kFileNameGlobal = None \<and>
       heap w' 9 kDirNameGlobal = None"
  by (simp add: Require_def demo_seed ThrowException_def Exception_Error_def demo_seeded_global
      kFileNameGlobal_def kDirNameGlobal_def)

text \<open>
  Outside the amended statement of C5: with the reader as modelled, a file of the list
  that cannot be read ends Require by the C++ exception of the read. On the concrete
  system the identity globals written before the load are then still bound to the path
  of that file.
\<close>

lemma Require_unreadable_file_example:
  "case Require demo_env (Fun 7) (Obj 8) [Str ''missing.js''] demo_world of
     (out, w') \<Rightarrow>
       out = Thrown (StdException ''cannot open missing.js'') \<and>
       heap w' 9 kFileNameGlobal = Some (Str ''/app/missing.js'') \<and>
       heap w' 9 kDirNameGlobal = Some (Str ''/app'')"
  by (simp add: Require_def demo_seed IncludeScript_def createV8StringFromFile_def Let_def)
     (simp add: demo_env_def)


text \<open>
  Where the failing load returns a handle (the source does not compile, or the script
  throws), the loop ends at \<open>break\<close> and Require does return the new global object,
  not an error value of its own. The world it returns is the one that load left, with the
  identity globals cleared: every other binding of the new global object and every other
  object, the exports object among them, is as the files run so far left it, and so is
  the scheduled exception.
\<close>

lemma Require_returns_global_on_failure:
  assumes "Require_seed nativeRequire loader w = (g, ws)"
      and "Require_loop E g files ws = (Broke, wl)"
  shows "Require E nativeRequire loader files w =
           (Returned (Some (Obj g)), (ClearFileAndDirectoryGlobals g wl)\<lparr>current := current w\<rparr>) \<and>
         (\<forall>a. a \<noteq> g \<longrightarrow> heap (snd (Require E nativeRequire loader files w)) a = heap wl a) \<and>
         (\<forall>n. n \<noteq> kFileNameGlobal \<and> n \<noteq> kDirNameGlobal \<longrightarrow>
              heap (snd (Require E nativeRequire loader files w)) g n = heap wl g n) \<and>
         pending (snd (Require E nativeRequire loader files w)) = pending wl \<and>
         (\<exists>xs p ys r w1.
            files = xs @ Str p # ys \<and>
            Require_loop E g xs ws = (Completed, w1) \<and>
            IncludeScript E (Some p) (SetFileAndDirectoryGlobals E g p w1) = (Returned r, True, wl))"
  using assms Require_loop_Broke [OF assms(2)] by (simp add: Require_def)

text \<open>On the concrete system: the property that a.js assigned on the exports object
  (at address 10) is still there after b.js has failed.\<close>

lemma Require_returns_global_on_failure_witness:
  "Require_seed (Fun 7) (Obj 8) demo_world = (9, demo_seeded) \<and>
   Require_loop demo_env 9 ([Str ''a.js''] @ Str ''b.js'' # [Str ''c.js'']) demo_seeded =
     (Broke, demo_after_b) \<and>
   Require demo_env (Fun 7) (Obj 8) ([Str ''a.js''] @ Str ''b.js'' # [Str ''c.js'']) demo_world =
     (Returned (Some (Obj 9)),
      (ClearFileAndDirectoryGlobals 9 demo_after_b)\<lparr>current := current demo_world\<rparr>) \<and>
   heap (snd (Require demo_env (Fun 7) (Obj 8) ([Str ''a.js''] @ Str ''b.js'' # [Str ''c.js''])
                demo_world)) 10 ''x'' = heap demo_after_b 10 ''x'' \<and>
   heap demo_after_b 10 ''x'' = Some (Number 1) \<and>
   pending (snd (Require demo_env (Fun 7) (Obj 8) ([Str ''a.js''] @ Str ''b.js'' # [Str ''c.js''])
                   demo_world)) = pending demo_after_b \<and>
   (\<exists>xs p ys r w1.
      [Str ''a.js''] @ Str ''b.js'' # [Str ''c.js''] = xs @ Str p # ys \<and>
      Require_loop demo_env 9 xs demo_seeded = (Completed, w1) \<and>
      IncludeScript demo_env (Some p) (SetFileAndDirectoryGlobals demo_env 9 p w1) =
        (Returned r, True, demo_after_b))"
proof -
  have h1: "Require_seed (Fun 7) (Obj 8) demo_world = (9, demo_seeded)"
    by (rule demo_seed)
  have h2: "Require_loop demo_env 9 ([Str ''a.js''] @ Str ''b.js'' # [Str ''c.js'']) demo_seeded =
     (Broke, demo_after_b)"
    by (rule demo_loop_abc)
  have x: "heap demo_after_b 10 ''x'' = Some (Number 1)"
    using demo_include_b_after_a by blast
  have n: "(10::nat) \<noteq> 9"
    by simp
  note t = Require_returns_global_on_failure [OF h1 h2]
  have c1: "Require demo_env (Fun 7) (Obj 8) ([Str ''a.js''] @ Str ''b.js'' # [Str ''c.js'']) demo_world =
     (Returned (Some (Obj 9)),
      (ClearFileAndDirectoryGlobals 9 demo_after_b)\<lparr>current := current demo_world\<rparr>)"
    by (rule t [THEN conjunct1])
  have c2: "heap (snd (Require demo_env (Fun 7) (Obj 8) ([Str ''a.js''] @ Str ''b.js'' # [Str ''c.js''])
                demo_world)) 10 = heap demo_after_b 10"
    by (rule t [THEN conjunct2, THEN conjunct1, THEN spec, THEN mp, OF n])
  have c3: "pending (snd (Require demo_env (Fun 7) (Obj 8) ([Str ''a.js''] @ Str ''b.js'' # [Str ''c.js''])
                   demo_world)) = pending demo_after_b"
    by (rule t [THEN conjunct2, THEN conjunct2, THEN conjunct2, THEN conjunct1])
  have c4: "\<exists>xs p ys r w1.
      [Str ''a.js''] @ Str ''b.js'' # [Str ''c.js''] = xs @ Str p # ys \<and>
      Require_loop demo_env 9 xs demo_seeded = (Completed, w1) \<and>
      IncludeScript demo_env (Some p) (SetFileAndDirectoryGlobals demo_env 9 p w1) =
        (Returned r, True, demo_after_b)"
    by (rule t [THEN conjunct2, THEN conjunct2, THEN conjunct2, THEN conjunct2])
  from c2 have c2': "heap (snd (Require demo_env (Fun 7) (Obj 8)
                ([Str ''a.js''] @ Str ''b.js'' # [Str ''c.js'']) demo_world)) 10 ''x'' =
              heap demo_after_b 10 ''x''"
    by (rule arg_cong)
  from h1 h2 c1 c2' x c3 c4 show ?thesis by (intro conjI)
qed

text \<open>
  C7. When the source of a readable file does not compile, IncludeScript returns
  \<open>Undefined\<close>, neither the empty handle nor an error object, with
  \<open>exceptionOccurred = True\<close>. The heap is unchanged, so no property of any object, the
  identity globals included, has been written; the calls made are the read and the
  compilation; and the scheduled exception is what the engine's parser made it.
\<close>

theorem include_compile_failure:
  assumes "path \<noteq> []" and "fs E path = Some src" and "\<not> syntax_ok E src"
  shows "fst (IncludeScript E (Some path) w) = Returned (Some Undefined) \<and>
         fst (snd (IncludeScript E (Some path) w)) = True \<and>
         heap (snd (snd (IncludeScript E (Some path) w))) = heap w \<and>
         trace (snd (snd (IncludeScript E (Some path) w))) =
           trace w @ [EvRead path, EvCompile path] \<and>
         pending (snd (snd (IncludeScript E (Some path) w))) =
           (case syntax_error E src of None \<Rightarrow> pending w | Some e \<Rightarrow> Some e)"
  using assms
  by (simp add: IncludeScript_def createV8StringFromFile_def Script_Compile_def Let_def
      split: option.splits)

text \<open>C7 on the concrete system: bad.js.\<close>

theorem include_compile_failure_witness:
  "''bad.js'' \<noteq> [] \<and> fs demo_env ''bad.js'' = Some ''(('' \<and> \<not> syntax_ok demo_env ''(('' \<and>
   fst (IncludeScript demo_env (Some ''bad.js'') demo_world) = Returned (Some Undefined) \<and>
   fst (snd (IncludeScript demo_env (Some ''bad.js'') demo_world)) = True \<and>
   heap (snd (snd (IncludeScript demo_env (Some ''bad.js'') demo_world))) = heap demo_world \<and>
   trace (snd (snd (IncludeScript demo_env (Some ''bad.js'') demo_world))) =
     trace demo_world @ [EvRead ''bad.js'', EvCompile ''bad.js''] \<and>
   pending (snd (snd (IncludeScript demo_env (Some ''bad.js'') demo_world))) =
     (case syntax_error demo_env ''(('' of None \<Rightarrow> pending demo_world | Some e \<Rightarrow> Some e)"
proof -
  have h1: "''bad.js'' \<noteq> []" by simp
  have h2: "fs demo_env ''bad.js'' = Some ''((''" by simp
  have h3: "\<not> syntax_ok demo_env ''((''" by simp
  from include_compile_failure [OF h1 h2 h3, of demo_world] h1 h2 h3 show ?thesis by blast
qed

text \<open>
  C8. IncludeScript on a null or empty path schedules the error that names the missing
  file name, returns with \<open>exceptionOccurred = True\<close> and changes nothing else in the
  world; IncludeScriptWrapper on no argument or on two or more arguments schedules the
  error about the number of parameters and changes nothing else. In all four cases the
  trace is unchanged: no file is read.
\<close>

theorem include_rejects_bad_arguments:
  "IncludeScript E None w =
     (Returned (Some Undefined), True,
      w\<lparr>pending := Some (Err ''webOS 'include' requires a non-empty filename argument.'')\<rparr>) \<and>
   IncludeScript E (Some []) w =
     (Returned (Some Undefined), True,
      w\<lparr>pending := Some (Err ''webOS 'include' requires a non-empty filename argument.'')\<rparr>) \<and>
   IncludeScriptWrapper E [] w =
     (Some Undefined, w\<lparr>pending := Some (Err ''Invalid number of parameters, 1 expected.'')\<rparr>) \<and>
   IncludeScriptWrapper E (a # b # rest) w =
     (Some Undefined, w\<lparr>pending := Some (Err ''Invalid number of parameters, 1 expected.'')\<rparr>) \<and>
   trace (snd (snd (IncludeScript E None w))) = trace w \<and>
   trace (snd (snd (IncludeScript E (Some []) w))) = trace w \<and>
   trace (snd (IncludeScriptWrapper E [] w)) = trace w \<and>
   trace (snd (IncludeScriptWrapper E (a # b # rest) w)) = trace w"
  by (simp add: IncludeScript_def IncludeScriptWrapper_def ThrowException_def Exception_Error_def)

text \<open>
  C9. When the file cannot be read, the C++ exception of the read leaves IncludeScript
  with \<open>exceptionOccurred = True\<close>, and IncludeScriptWrapper turns it into a scheduled
  error with the same message. The read is the only call recorded, and the heap is
  unchanged, so the identity globals are as they were before the call.
\<close>

theorem include_unreadable_file:
  assumes "path \<noteq> []" and "fs E path = None"
  shows "IncludeScript E (Some path) w =
           (Thrown (StdException (what E path)), True, w\<lparr>trace := trace w @ [EvRead path]\<rparr>) \<and>
         IncludeScriptWrapper E [Str path] w =
           (Some Undefined,
            w\<lparr>trace := trace w @ [EvRead path], pending := Some (Err (what E path))\<rparr>) \<and>
         heap (snd (snd (IncludeScript E (Some path) w))) = heap w \<and>
         heap (snd (IncludeScriptWrapper E [Str path] w)) = heap w"
  using assms
  by (simp add: IncludeScript_def IncludeScriptWrapper_def createV8StringFromFile_def
      ThrowException_def Exception_Error_def)

text \<open>C9 on the concrete system: missing.js.\<close>

theorem include_unreadable_file_witness:
  "''missing.js'' \<noteq> [] \<and> fs demo_env ''missing.js'' = None \<and>
   IncludeScript demo_env (Some ''missing.js'') demo_world =
     (Thrown (StdException (what demo_env ''missing.js'')), True,
      demo_world\<lparr>trace := trace demo_world @ [EvRead ''missing.js'']\<rparr>) \<and>
   IncludeScriptWrapper demo_env [Str ''missing.js''] demo_world =
     (Some Undefined,
      demo_world\<lparr>trace := trace demo_world @ [EvRead ''missing.js''],
                 pending := Some (Err (what demo_env ''missing.js''))\<rparr>) \<and>
   heap (snd (snd (IncludeScript demo_env (Some ''missing.js'') demo_world))) = heap demo_world \<and>
   heap (snd (IncludeScriptWrapper demo_env [Str ''missing.js''] demo_world)) = heap demo_world"
proof -
  have h1: "''missing.js'' \<noteq> []" by simp
  have h2: "fs demo_env ''missing.js'' = None" by simp
  from include_unreadable_file [OF h1 h2, of demo_world] h1 h2 show ?thesis by blast
qed

text \<open>
  C10. IncludeScriptWrapper on one argument makes no check of its type: the call behaves
  as the call on the string that Utf8Value gives for the argument, and when the
  conversion gives a null pointer it ends in the empty-path error of IncludeScript, not in
  an error about the parameters.
\<close>

theorem include_coerces_argument:
  "IncludeScriptWrapper E [v] w =
     (case Utf8Value E v of
        None \<Rightarrow>
          (Some Undefined,
           w\<lparr>pending := Some (Err ''webOS 'include' requires a non-empty filename argument.'')\<rparr>)
      | Some p \<Rightarrow> IncludeScriptWrapper E [Str p] w)"
  by (simp add: IncludeScriptWrapper_def IncludeScript_def ThrowException_def Exception_Error_def
      split: option.splits)

text \<open>On the concrete system the number 42 is taken as the file name \<open>42\<close>, which is
  then read.\<close>

lemma include_number_example:
  "IncludeScriptWrapper demo_env [Number 42] demo_world =
     (Some Undefined,
      demo_world\<lparr>trace := [EvRead ''42''], pending := Some (Err ''cannot open 42'')\<rparr>)"
  by (simp add: IncludeScriptWrapper_def IncludeScript_def ThrowException_def Exception_Error_def
      createV8StringFromFile_def demo_env_def demo_world_def)

end
